theory Spec2Isabelle
  imports Main
begin

section \<open>Conway's Game of Life (conways.py)\<close>

text \<open>
  A shallow embedding of \<^verbatim>\<open>conways.py\<close>. Every exception the source can raise is a
  value of \<open>py_error\<close>, and a call that may raise returns \<open>py_error + 'a\<close> (\<open>Inl\<close> the
  exception). Comprehensions and generators are lists of computations that are run from
  left to right; the first exception wins, as it does in Python.

  The source is modelled twice. In the first model a cell, a row and a game are values.
  In the second model, which covers \<^verbatim>\<open>next_generation\<close> and what it calls, they are
  objects in a store, so that a change of an existing object can be told from the
  creation of a new one. The two models are shown to agree.
\<close>

subsection \<open>Strings\<close>

text \<open>
  A Python \<^verbatim>\<open>str\<close> is a sequence of Unicode code points. The dead symbol of the source
  is U+00B7 (MIDDLE DOT, code point 183), which is one character of a Python string, so
  a string is a list of code points and not a list of bytes.
\<close>

type_synonym codepoint = nat
type_synonym pystr = "codepoint list"

text \<open>
  \<^verbatim>\<open>str.splitlines()\<close>: the line boundaries of Python are LF, VT, FF, CR, FS, GS, RS,
  NEL, LINE SEPARATOR and PARAGRAPH SEPARATOR; CR LF is one boundary. The boundaries are
  not kept, and a string that ends in a boundary yields no final empty line.
\<close>

definition is_linebreak :: "codepoint \<Rightarrow> bool" where
  "is_linebreak c \<longleftrightarrow> c \<in> set [10, 11, 12, 13, 28, 29, 30, 133, 8232, 8233]"

fun splitlines_from :: "pystr \<Rightarrow> pystr \<Rightarrow> pystr list" where
  "splitlines_from cur [] = (if cur = [] then [] else [cur])"
| "splitlines_from cur [c] =
     (if is_linebreak c then [cur] else [cur @ [c]])"
| "splitlines_from cur (c # d # cs) =
     (if c = 13 \<and> d = 10 then cur # splitlines_from [] cs
      else if is_linebreak c then cur # splitlines_from [] (d # cs)
      else splitlines_from (cur @ [c]) (d # cs))"

definition splitlines :: "pystr \<Rightarrow> pystr list" where
  "splitlines s = splitlines_from [] s"

text \<open>\<^verbatim>\<open>sep.join(parts)\<close>.\<close>

fun join :: "pystr \<Rightarrow> pystr list \<Rightarrow> pystr" where
  "join sep [] = []"
| "join sep [p] = p"
| "join sep (p # q # ps) = p @ sep @ join sep (q # ps)"

subsection \<open>Exceptions and the evaluation of comprehensions\<close>

datatype py_error = TypeError | IndexError | AttributeError | NotImplementedError

text \<open>
  The elements of a comprehension or of a generator that is consumed at once are
  computed one after the other; the first one that raises ends the evaluation.
\<close>

fun collect :: "(py_error + 'a) list \<Rightarrow> py_error + 'a list" where
  "collect [] = Inr []"
| "collect (Inl e # ms) = Inl e"
| "collect (Inr x # ms) = (case collect ms of Inl e \<Rightarrow> Inl e | Inr xs \<Rightarrow> Inr (x # xs))"

text \<open>
  \<^verbatim>\<open>range(n)\<close> where \<open>n\<close> may be \<^verbatim>\<open>None\<close> (the default of the keyword arguments of
  \<^verbatim>\<open>dead_grid\<close>): \<^verbatim>\<open>range(None)\<close> raises \<^verbatim>\<open>TypeError\<close>, and a bound that is not positive
  gives the empty range.
\<close>

definition py_range :: "int option \<Rightarrow> py_error + int list" where
  "py_range n = (case n of None \<Rightarrow> Inl TypeError | Some k \<Rightarrow> Inr (map int [0..<nat k]))"

text \<open>
  \<^verbatim>\<open>xs[i]\<close>: the indices from 0 up to the length are read from the front, the indices
  from minus the length up to -1 from the end, and every other index raises
  \<^verbatim>\<open>IndexError\<close>.
\<close>

definition py_index :: "'a list \<Rightarrow> int \<Rightarrow> py_error + 'a" where
  "py_index xs i =
     (if 0 \<le> i \<and> i < int (length xs) then Inr (xs ! nat i)
      else if - int (length xs) \<le> i \<and> i < 0 then Inr (xs ! nat (int (length xs) + i))
      else Inl IndexError)"

text \<open>\<^verbatim>\<open>enumerate(xs)\<close>.\<close>

definition enumerate_py :: "'a list \<Rightarrow> (int \<times> 'a) list" where
  "enumerate_py xs = zip (map int [0..<length xs]) xs"

subsection \<open>Cells\<close>

text \<open>
  The three classes \<^verbatim>\<open>Cell\<close>, \<^verbatim>\<open>Dead(Cell)\<close> and \<^verbatim>\<open>Live(Cell)\<close>. An instance carries its
  class, which selects \<^verbatim>\<open>next_state\<close>, and the attribute \<^verbatim>\<open>is_alive\<close>, which \<^verbatim>\<open>__str__\<close>
  and the neighbour count read.
\<close>

datatype cell_class = CellC | DeadC | LiveC

record cell =
  klass :: cell_class
  is_alive :: bool

text \<open>
  Instantiation \<^verbatim>\<open>k(*args)\<close>. Neither \<^verbatim>\<open>Dead\<close> nor \<^verbatim>\<open>Live\<close> defines \<^verbatim>\<open>__init__\<close>, so all
  three classes run \<^verbatim>\<open>Cell.__init__(self, is_alive)\<close>, which takes exactly one argument
  besides \<^verbatim>\<open>self\<close>; any other number of arguments raises \<^verbatim>\<open>TypeError\<close>.
\<close>

definition Cell_init :: "cell_class \<Rightarrow> bool list \<Rightarrow> py_error + cell" where
  "Cell_init k args =
     (case args of
        [a] \<Rightarrow> Inr \<lparr>klass = k, is_alive = a\<rparr>
      | _ \<Rightarrow> Inl TypeError)"

text \<open>The two expressions \<^verbatim>\<open>Live()\<close> and \<^verbatim>\<open>Dead()\<close> of the source: no argument is passed.\<close>

definition Live :: "py_error + cell" where
  "Live = Cell_init LiveC []"

definition Dead :: "py_error + cell" where
  "Dead = Cell_init DeadC []"

definition Dead_string_form :: pystr where
  "Dead_string_form = [183]"

definition Live_string_form :: pystr where
  "Live_string_form = [48]"

text \<open>\<^verbatim>\<open>Cell.__str__\<close>.\<close>

definition Cell_str :: "cell \<Rightarrow> pystr" where
  "Cell_str c = (if is_alive c then Live_string_form else Dead_string_form)"

text \<open>\<^verbatim>\<open>Cell.from_str\<close>.\<close>

definition Cell_from_str :: "pystr \<Rightarrow> py_error + cell" where
  "Cell_from_str string = (if string = Live_string_form then Live else Dead)"

text \<open>\<^verbatim>\<open>next_state\<close>, dispatched on the class of the instance.\<close>

definition next_state :: "cell \<Rightarrow> int \<Rightarrow> py_error + cell" where
  "next_state c neighbor_count =
     (case klass c of
        CellC \<Rightarrow> Inl NotImplementedError
      | DeadC \<Rightarrow> (if neighbor_count = 3 then Live else Dead)
      | LiveC \<Rightarrow> (if neighbor_count \<in> set [2, 3] then Live else Dead))"

subsection \<open>The game\<close>

record game =
  grid :: "cell list list"
  height :: int
  width :: int

text \<open>\<^verbatim>\<open>GameOfLife.__init__\<close>: \<^verbatim>\<open>grid[0]\<close> raises \<^verbatim>\<open>IndexError\<close> on the empty list.\<close>

definition GameOfLife_init :: "cell list list \<Rightarrow> py_error + game" where
  "GameOfLife_init g =
     (case py_index g 0 of
        Inl e \<Rightarrow> Inl e
      | Inr row0 \<Rightarrow> Inr \<lparr>grid = g, height = int (length g), width = int (length row0)\<rparr>)"

text \<open>\<^verbatim>\<open>GameOfLife.dead_grid\<close>: it returns the list of rows, not a \<^verbatim>\<open>GameOfLife\<close>.\<close>

definition dead_grid :: "int option \<Rightarrow> int option \<Rightarrow> py_error + cell list list" where
  "dead_grid h w =
     (case py_range h of
        Inl e \<Rightarrow> Inl e
      | Inr rows \<Rightarrow>
          collect (map (\<lambda>_. case py_range w of
                               Inl e \<Rightarrow> Inl e
                             | Inr cols \<Rightarrow> collect (map (\<lambda>_. Dead) cols)) rows))"

text \<open>\<^verbatim>\<open>GameOfLife.from_str\<close>.\<close>

definition non_empty_lines :: "pystr \<Rightarrow> pystr list" where
  "non_empty_lines string = filter (\<lambda>line. length line > 0) (splitlines string)"

definition from_str :: "pystr \<Rightarrow> py_error + game" where
  "from_str string =
     (case collect (map (\<lambda>line. collect (map (\<lambda>char. Cell_from_str [char]) line))
                        (non_empty_lines string)) of
        Inl e \<Rightarrow> Inl e
      | Inr parsed_grid \<Rightarrow> GameOfLife_init parsed_grid)"

text \<open>\<^verbatim>\<open>GameOfLife.__str__\<close>.\<close>

definition GameOfLife_str :: "game \<Rightarrow> pystr" where
  "GameOfLife_str g = join [10] (map (\<lambda>row. join [] (map Cell_str row)) (grid g))"

text \<open>
  \<^verbatim>\<open>GameOfLife.get\<close>. The parameter \<open>dflt\<close> is the source's \<^verbatim>\<open>default\<close>, which is
  \<^verbatim>\<open>None\<close> when it is not given, so the result is a cell or \<^verbatim>\<open>None\<close>; a row shorter
  than \<^verbatim>\<open>self.width\<close> makes the indexing raise.
\<close>

definition get :: "game \<Rightarrow> int \<Rightarrow> int \<Rightarrow> cell option \<Rightarrow> py_error + cell option" where
  "get g row col dflt =
     (let is_within_rows = (0 \<le> row \<and> row < height g);
          is_within_cols = (0 \<le> col \<and> col < width g)
      in if is_within_rows \<and> is_within_cols
         then (case py_index (grid g) row of
                 Inl e \<Rightarrow> Inl e
               | Inr r \<Rightarrow> (case py_index r col of Inl e \<Rightarrow> Inl e | Inr c \<Rightarrow> Inr (Some c)))
         else Inr dflt)"

text \<open>
  \<^verbatim>\<open>GameOfLife.count_live_neighbors\<close>. \<^verbatim>\<open>itertools.product\<close> runs over the pairs with
  the first component outermost. In \<^verbatim>\<open>is_coord_alive\<close> the argument \<^verbatim>\<open>default=Dead()\<close> is
  evaluated before \<^verbatim>\<open>get\<close> is entered.
\<close>

definition directions_1D :: "int list" where
  "directions_1D = [-1, 0, 1]"

definition directions_2D :: "(int \<times> int) list" where
  "directions_2D = List.product directions_1D directions_1D"

definition neighbor_coords :: "int \<Rightarrow> int \<Rightarrow> (int \<times> int) list" where
  "neighbor_coords row col =
     map (\<lambda>(d_row, d_col). (row + d_row, col + d_col))
         (filter (\<lambda>d. d \<noteq> (0, 0)) directions_2D)"

definition is_coord_alive :: "game \<Rightarrow> int \<times> int \<Rightarrow> py_error + int" where
  "is_coord_alive g coord =
     (case Dead of
        Inl e \<Rightarrow> Inl e
      | Inr d \<Rightarrow>
          (case get g (fst coord) (snd coord) (Some d) of
             Inl e \<Rightarrow> Inl e
           | Inr None \<Rightarrow> Inl AttributeError
           | Inr (Some c) \<Rightarrow> Inr (if is_alive c then 1 else 0)))"

definition count_live_neighbors :: "game \<Rightarrow> int \<Rightarrow> int \<Rightarrow> py_error + int" where
  "count_live_neighbors g row col =
     (case collect (map (is_coord_alive g) (neighbor_coords row col)) of
        Inl e \<Rightarrow> Inl e
      | Inr ns \<Rightarrow> Inr (sum_list ns))"

text \<open>\<^verbatim>\<open>GameOfLife.coordinate\<close>.\<close>

definition coordinate :: "game \<Rightarrow> ((int \<times> int) \<times> cell) list list" where
  "coordinate g =
     map (\<lambda>(row_index, row).
            map (\<lambda>(col_index, c). ((row_index, col_index), c)) (enumerate_py row))
         (enumerate_py (grid g))"

text \<open>
  \<^verbatim>\<open>GameOfLife.grid_with_live_neighbor_counts\<close>: a generator of generators. An element
  is computed when it is asked for, so it is a computation that may raise.
\<close>

definition grid_with_live_neighbor_counts :: "game \<Rightarrow> (py_error + cell \<times> int) list list" where
  "grid_with_live_neighbor_counts g =
     map (\<lambda>coordinated_row.
            map (\<lambda>((row, col), c).
                   case count_live_neighbors g row col of
                     Inl e \<Rightarrow> Inl e
                   | Inr n \<Rightarrow> Inr (c, n))
                coordinated_row)
         (coordinate g)"

text \<open>
  \<^verbatim>\<open>GameOfLife.next_generation\<close>: for each element the pair is produced first (the
  count), then \<^verbatim>\<open>next_state\<close> is called, row by row and cell by cell.
\<close>

definition next_generation :: "game \<Rightarrow> py_error + game" where
  "next_generation g =
     (case collect (map (\<lambda>row. collect (map (\<lambda>p. case p of
                                                    Inl e \<Rightarrow> Inl e
                                                  | Inr (c, neighbor_count) \<Rightarrow>
                                                      next_state c neighbor_count) row))
                        (grid_with_live_neighbor_counts g)) of
        Inl e \<Rightarrow> Inl e
      | Inr next_grid \<Rightarrow> GameOfLife_init next_grid)"

text \<open>
  The cells that the calls \<^verbatim>\<open>Live(True)\<close> and \<^verbatim>\<open>Dead(False)\<close> build, for the concrete
  grids of the theorems: a call with one argument is the only way to obtain a cell.
\<close>

abbreviation live_cell :: cell where
  "live_cell \<equiv> \<lparr>klass = LiveC, is_alive = True\<rparr>"

abbreviation dead_cell :: cell where
  "dead_cell \<equiv> \<lparr>klass = DeadC, is_alive = False\<rparr>"

text \<open>
  The seed of \<^verbatim>\<open>glider_example\<close>, after \<^verbatim>\<open>textwrap.dedent\<close>: a line feed, then six
  rows of seven symbols, each row ended by a line feed.
\<close>

definition glider_string :: pystr where
  "glider_string =
     [10] @ [183, 183, 48, 183, 183, 183, 183] @
     [10] @ [48, 183, 48, 183, 183, 183, 183] @
     [10] @ [183, 48, 48, 183, 183, 183, 183] @
     [10] @ [183, 183, 183, 183, 183, 183, 183] @
     [10] @ [183, 183, 183, 183, 183, 183, 183] @
     [10] @ [183, 183, 183, 183, 183, 183, 183] @ [10]"

text \<open>The grid that the seed describes, with cells built by one-argument calls.\<close>

definition glider_seed :: "cell list list" where
  "glider_seed =
     [[dead_cell, dead_cell, live_cell, dead_cell, dead_cell, dead_cell, dead_cell],
      [live_cell, dead_cell, live_cell, dead_cell, dead_cell, dead_cell, dead_cell],
      [dead_cell, live_cell, live_cell, dead_cell, dead_cell, dead_cell, dead_cell],
      [dead_cell, dead_cell, dead_cell, dead_cell, dead_cell, dead_cell, dead_cell],
      [dead_cell, dead_cell, dead_cell, dead_cell, dead_cell, dead_cell, dead_cell],
      [dead_cell, dead_cell, dead_cell, dead_cell, dead_cell, dead_cell, dead_cell]]"

subsection \<open>The transition on a store of objects\<close>

text \<open>
  Whether \<^verbatim>\<open>next_generation\<close> changes the grid it is called on cannot be read off a
  model whose objects are values. The code that \<^verbatim>\<open>next_generation\<close> runs is therefore
  modelled a second time, on a store of objects: a cell, a list and a \<^verbatim>\<open>GameOfLife\<close>
  are objects with an address, a list holds the addresses of its elements, and every
  function takes the store and returns the outcome with the store it leaves behind,
  also when it raises.
\<close>

type_synonym addr = nat

text \<open>
  An instance of \<^verbatim>\<open>Cell\<close>, \<^verbatim>\<open>Dead\<close> or \<^verbatim>\<open>Live\<close> with its attribute \<^verbatim>\<open>is_alive\<close>, a list
  with the addresses of its elements, or a \<^verbatim>\<open>GameOfLife\<close> with its attributes \<^verbatim>\<open>grid\<close>,
  \<^verbatim>\<open>height\<close> and \<^verbatim>\<open>width\<close>. An attribute is \<open>None\<close> until \<^verbatim>\<open>__init__\<close> has assigned it.
\<close>

datatype obj =
    Instance cell_class "bool option"
  | PyList "addr list"
  | GameObj "addr option" "int option" "int option"

text \<open>The object at address \<open>a\<close> is the \<open>a\<close>-th element of the store.\<close>

type_synonym store = "obj list"
type_synonym 'a prog = "store \<Rightarrow> (py_error + 'a) \<times> store"

text \<open>A computation without effect, sequencing, and a loop over a list.\<close>

definition lift_st :: "py_error + 'a \<Rightarrow> 'a prog" where
  "lift_st r s = (r, s)"

definition return_st :: "'a \<Rightarrow> 'a prog" where
  "return_st x = lift_st (Inr x)"

definition raise_st :: "py_error \<Rightarrow> 'a prog" where
  "raise_st e = lift_st (Inl e)"

definition bind_st :: "'a prog \<Rightarrow> ('a \<Rightarrow> 'b prog) \<Rightarrow> 'b prog" where
  "bind_st m f s = (case m s of (Inl e, s') \<Rightarrow> (Inl e, s') | (Inr x, s') \<Rightarrow> f x s')"

fun mapM_st :: "('a \<Rightarrow> 'b prog) \<Rightarrow> 'a list \<Rightarrow> 'b list prog" where
  "mapM_st f [] = return_st []"
| "mapM_st f (x # xs) =
     bind_st (f x) (\<lambda>y. bind_st (mapM_st f xs) (\<lambda>ys. return_st (y # ys)))"

text \<open>
  Reading the store. A Python reference always points to an object; an address beyond
  the store reads as \<open>None\<close> and is treated like an object of the wrong type.
\<close>

definition obj_at :: "store \<Rightarrow> addr \<Rightarrow> obj option" where
  "obj_at s a = (if a < length s then Some (s ! a) else None)"

text \<open>A new object gets the next free address.\<close>

definition alloc :: "obj \<Rightarrow> addr prog" where
  "alloc ob s = (Inr (length s), s @ [ob])"

text \<open>
  The elements of a list, for \<^verbatim>\<open>len\<close>, indexing and iteration; each of them raises
  \<^verbatim>\<open>TypeError\<close> on a cell or a game.
\<close>

definition list_items :: "addr \<Rightarrow> addr list prog" where
  "list_items a s =
     (case obj_at s a of Some (PyList xs) \<Rightarrow> (Inr xs, s) | _ \<Rightarrow> (Inl TypeError, s))"

text \<open>
  Reading and assigning attributes. Reading an attribute that the object does not have
  raises \<^verbatim>\<open>AttributeError\<close>. The source assigns attributes in the two \<^verbatim>\<open>__init__\<close>
  methods only.
\<close>

definition get_is_alive :: "addr \<Rightarrow> bool prog" where
  "get_is_alive a s =
     (case obj_at s a of
        Some (Instance k (Some b)) \<Rightarrow> (Inr b, s)
      | _ \<Rightarrow> (Inl AttributeError, s))"

definition set_is_alive :: "addr \<Rightarrow> bool \<Rightarrow> unit prog" where
  "set_is_alive a v s =
     (case obj_at s a of
        Some (Instance k _) \<Rightarrow> (Inr (), s[a := Instance k (Some v)])
      | _ \<Rightarrow> (Inl AttributeError, s))"

definition get_grid :: "addr \<Rightarrow> addr prog" where
  "get_grid a s =
     (case obj_at s a of
        Some (GameObj (Some g) _ _) \<Rightarrow> (Inr g, s)
      | _ \<Rightarrow> (Inl AttributeError, s))"

definition get_height :: "addr \<Rightarrow> int prog" where
  "get_height a s =
     (case obj_at s a of
        Some (GameObj _ (Some h) _) \<Rightarrow> (Inr h, s)
      | _ \<Rightarrow> (Inl AttributeError, s))"

definition get_width :: "addr \<Rightarrow> int prog" where
  "get_width a s =
     (case obj_at s a of
        Some (GameObj _ _ (Some w)) \<Rightarrow> (Inr w, s)
      | _ \<Rightarrow> (Inl AttributeError, s))"

definition set_grid :: "addr \<Rightarrow> addr \<Rightarrow> unit prog" where
  "set_grid a g s =
     (case obj_at s a of
        Some (GameObj _ h w) \<Rightarrow> (Inr (), s[a := GameObj (Some g) h w])
      | _ \<Rightarrow> (Inl AttributeError, s))"

definition set_height :: "addr \<Rightarrow> int \<Rightarrow> unit prog" where
  "set_height a h s =
     (case obj_at s a of
        Some (GameObj g _ w) \<Rightarrow> (Inr (), s[a := GameObj g (Some h) w])
      | _ \<Rightarrow> (Inl AttributeError, s))"

definition set_width :: "addr \<Rightarrow> int \<Rightarrow> unit prog" where
  "set_width a w s =
     (case obj_at s a of
        Some (GameObj g h _) \<Rightarrow> (Inr (), s[a := GameObj g h (Some w)])
      | _ \<Rightarrow> (Inl AttributeError, s))"

text \<open>
  \<^verbatim>\<open>k(*args)\<close> for a cell class \<open>k\<close>: the instance is allocated, then
  \<^verbatim>\<open>Cell.__init__(self, is_alive)\<close> is called with the arguments.
\<close>

definition Cell_new :: "cell_class \<Rightarrow> bool list \<Rightarrow> addr prog" where
  "Cell_new k args =
     bind_st (alloc (Instance k None)) (\<lambda>self.
       case args of
         [a] \<Rightarrow> bind_st (set_is_alive self a) (\<lambda>_. return_st self)
       | _ \<Rightarrow> raise_st TypeError)"

text \<open>\<^verbatim>\<open>GameOfLife(grid=g)\<close>.\<close>

definition GameOfLife_new :: "addr \<Rightarrow> addr prog" where
  "GameOfLife_new g =
     bind_st (alloc (GameObj None None None)) (\<lambda>self.
     bind_st (set_grid self g) (\<lambda>_.
     bind_st (list_items g) (\<lambda>rows.
     bind_st (set_height self (int (length rows))) (\<lambda>_.
     bind_st (lift_st (py_index rows 0)) (\<lambda>row0.
     bind_st (list_items row0) (\<lambda>cells.
     bind_st (set_width self (int (length cells))) (\<lambda>_.
     return_st self)))))))"

text \<open>
  \<^verbatim>\<open>GameOfLife.get\<close>. In \<^verbatim>\<open>0 <= row < self.height\<close> the attribute is read only when the
  first comparison holds.
\<close>

definition get_st :: "addr \<Rightarrow> int \<Rightarrow> int \<Rightarrow> addr option \<Rightarrow> addr option prog" where
  "get_st self row col dflt =
     bind_st (if 0 \<le> row then bind_st (get_height self) (\<lambda>h. return_st (row < h))
              else return_st False) (\<lambda>is_within_rows.
     bind_st (if 0 \<le> col then bind_st (get_width self) (\<lambda>w. return_st (col < w))
              else return_st False) (\<lambda>is_within_cols.
     if is_within_rows \<and> is_within_cols
     then bind_st (get_grid self) (\<lambda>g.
          bind_st (list_items g) (\<lambda>rows.
          bind_st (lift_st (py_index rows row)) (\<lambda>r.
          bind_st (list_items r) (\<lambda>cells.
          bind_st (lift_st (py_index cells col)) (\<lambda>c.
          return_st (Some c))))))
     else return_st dflt))"

text \<open>\<^verbatim>\<open>GameOfLife.count_live_neighbors\<close> with its local function \<^verbatim>\<open>is_coord_alive\<close>.\<close>

definition is_coord_alive_st :: "addr \<Rightarrow> int \<times> int \<Rightarrow> int prog" where
  "is_coord_alive_st self coord =
     bind_st (Cell_new DeadC []) (\<lambda>d.
     bind_st (get_st self (fst coord) (snd coord) (Some d)) (\<lambda>c.
     case c of
       None \<Rightarrow> raise_st AttributeError
     | Some a \<Rightarrow> bind_st (get_is_alive a) (\<lambda>b. return_st (if b then 1 else 0))))"

definition count_live_neighbors_st :: "addr \<Rightarrow> int \<Rightarrow> int \<Rightarrow> int prog" where
  "count_live_neighbors_st self row col =
     bind_st (mapM_st (is_coord_alive_st self) (neighbor_coords row col)) (\<lambda>ns.
     return_st (sum_list ns))"

text \<open>\<^verbatim>\<open>next_state\<close>, looked up in the class of the object at \<open>c\<close>.\<close>

definition next_state_st :: "addr \<Rightarrow> int \<Rightarrow> addr prog" where
  "next_state_st c neighbor_count s =
     (case obj_at s c of
        Some (Instance CellC _) \<Rightarrow> raise_st NotImplementedError s
      | Some (Instance DeadC _) \<Rightarrow>
          (if neighbor_count = 3 then Cell_new LiveC [] else Cell_new DeadC []) s
      | Some (Instance LiveC _) \<Rightarrow>
          (if neighbor_count \<in> set [2, 3] then Cell_new LiveC [] else Cell_new DeadC []) s
      | _ \<Rightarrow> raise_st AttributeError s)"

text \<open>
  \<^verbatim>\<open>GameOfLife.next_generation\<close>. \<^verbatim>\<open>coordinate\<close> reads \<^verbatim>\<open>self.grid\<close> when it is called;
  the generators then hand over one row at a time and one cell at a time. \<open>cell_step\<close>
  is one round of the inner comprehension: the count of the cell, then its next state.
  \<open>next_row_st\<close> is one round of the outer comprehension: it reads the row, runs the
  inner comprehension and builds the new row.
\<close>

definition cell_step :: "addr \<Rightarrow> int \<Rightarrow> int \<times> addr \<Rightarrow> addr prog" where
  "cell_step self row_index = (\<lambda>(col_index, c).
     bind_st (count_live_neighbors_st self row_index col_index) (\<lambda>neighbor_count.
     next_state_st c neighbor_count))"

definition next_row_st :: "addr \<Rightarrow> int \<times> addr \<Rightarrow> addr prog" where
  "next_row_st self = (\<lambda>(row_index, row).
     bind_st (list_items row) (\<lambda>cells.
     bind_st (mapM_st (cell_step self row_index) (enumerate_py cells)) (\<lambda>next_cells.
     alloc (PyList next_cells))))"

definition next_generation_st :: "addr \<Rightarrow> addr prog" where
  "next_generation_st self =
     bind_st (get_grid self) (\<lambda>g.
     bind_st (list_items g) (\<lambda>rows.
     bind_st (mapM_st (next_row_st self) (enumerate_py rows)) (\<lambda>next_rows.
     bind_st (alloc (PyList next_rows)) (\<lambda>next_grid.
     GameOfLife_new next_grid))))"

text \<open>A computation preserves the first \<open>n\<close> objects of every store that has them.\<close>

definition preserves :: "nat \<Rightarrow> 'a prog \<Rightarrow> bool" where
  "preserves n m \<longleftrightarrow> (\<forall>s. n \<le> length s \<longrightarrow> take n (snd (m s)) = take n s)"

text \<open>
  The value that a stored object stands for: a cell with its class and \<^verbatim>\<open>is_alive\<close>, a
  row with its cells, a game with its rows, height and width. It is \<open>None\<close> when an
  attribute is missing or an address does not hold the kind of object that is expected
  there.
\<close>

definition read_cell :: "store \<Rightarrow> addr \<Rightarrow> cell option" where
  "read_cell s a =
     (case obj_at s a of
        Some (Instance k (Some b)) \<Rightarrow> Some \<lparr>klass = k, is_alive = b\<rparr>
      | _ \<Rightarrow> None)"

definition read_row :: "store \<Rightarrow> addr \<Rightarrow> cell list option" where
  "read_row s a =
     (case obj_at s a of
        Some (PyList cells) \<Rightarrow> those (map (read_cell s) cells)
      | _ \<Rightarrow> None)"

definition read_game :: "store \<Rightarrow> addr \<Rightarrow> game option" where
  "read_game s a =
     (case obj_at s a of
        Some (GameObj (Some l) (Some h) (Some w)) \<Rightarrow>
          (case obj_at s l of
             Some (PyList rows) \<Rightarrow>
               (case those (map (read_row s) rows) of
                  Some g \<Rightarrow> Some \<lparr>grid = g, height = h, width = w\<rparr>
                | None \<Rightarrow> None)
           | _ \<Rightarrow> None)
      | _ \<Rightarrow> None)"

section \<open>What the constructors do\<close>

text \<open>
  \<^verbatim>\<open>Live()\<close> and \<^verbatim>\<open>Dead()\<close> pass no argument to \<^verbatim>\<open>Cell.__init__(self, is_alive)\<close>, so both
  raise \<^verbatim>\<open>TypeError\<close>. Every function of the source that builds a cell raises with
  them; the lemmas below give the outcome of each function on every input.
\<close>

lemma Cell_init_one_argument:
  "Cell_init LiveC [True] = Inr live_cell" "Cell_init DeadC [False] = Inr dead_cell"
  by (simp_all add: Cell_init_def)

lemma Dead_raises: "Dead = Inl TypeError"
  by (simp add: Dead_def Cell_init_def)

lemma Live_raises: "Live = Inl TypeError"
  by (simp add: Live_def Cell_init_def)

lemma Cell_from_str_raises: "Cell_from_str s = Inl TypeError"
  by (simp add: Cell_from_str_def Dead_raises Live_raises)

lemma next_state_raises:
  "next_state c n = Inl (if klass c = CellC then NotImplementedError else TypeError)"
  by (cases "klass c") (simp_all add: next_state_def Dead_raises Live_raises)

lemma is_coord_alive_raises: "is_coord_alive g coord = Inl TypeError"
  by (simp add: is_coord_alive_def Dead_raises)

lemma neighbor_coords_eq:
  "neighbor_coords r c =
     [(r - 1, c - 1), (r - 1, c), (r - 1, c + 1), (r, c - 1), (r, c + 1),
      (r + 1, c - 1), (r + 1, c), (r + 1, c + 1)]"
  by (simp add: neighbor_coords_def directions_2D_def directions_1D_def)

lemma count_live_neighbors_raises: "count_live_neighbors g r c = Inl TypeError"
  by (simp add: count_live_neighbors_def neighbor_coords_eq is_coord_alive_raises)

lemma collect_Inr: "collect (map (\<lambda>x. Inr (f x)) xs) = Inr (map f xs)"
  by (induction xs) simp_all

lemma collect_empty_or_raise:
  "collect (map (\<lambda>r. if r = [] then Inr [] else Inl e) rows) =
     (if list_all (\<lambda>r. r = []) rows then Inr (map (\<lambda>_. []) rows) else Inl e)"
  by (induction rows) simp_all

lemma map_enumerate_py: "map (\<lambda>(i, x). f x) (enumerate_py xs) = map f xs"
proof -
  have "map (\<lambda>(i, x). f x) (enumerate_py xs) = map f (map snd (enumerate_py xs))"
    by (simp add: case_prod_unfold comp_def)
  also have "map snd (enumerate_py xs) = xs"
    by (simp add: enumerate_py_def)
  finally show ?thesis .
qed

lemma enumerate_py_Nil: "enumerate_py xs = [] \<longleftrightarrow> xs = []"
  by (cases xs) (simp_all add: enumerate_py_def upt_conv_Cons del: upt_Suc)

lemma parsed_row:
  "collect (map (\<lambda>char. Cell_from_str [char]) line) = (if line = [] then Inr [] else Inl TypeError)"
  by (cases line) (simp_all add: Cell_from_str_raises)

lemma non_empty_lines_Cons: "non_empty_lines s = l # ls \<Longrightarrow> l \<noteq> []"
proof -
  assume "non_empty_lines s = l # ls"
  then have "l \<in> set (filter (\<lambda>line. length line > 0) (splitlines s))"
    by (simp add: non_empty_lines_def)
  then show ?thesis by simp
qed

lemma from_str_outcome:
  "from_str s = (if non_empty_lines s = [] then Inl IndexError else Inl TypeError)"
proof (cases "non_empty_lines s")
  case Nil
  then show ?thesis by (simp add: from_str_def GameOfLife_init_def py_index_def)
next
  case (Cons l ls)
  then have "l \<noteq> []" by (rule non_empty_lines_Cons)
  with Cons show ?thesis by (simp add: from_str_def parsed_row)
qed

lemma next_row:
  "collect (map (\<lambda>p. case p of Inl e \<Rightarrow> Inl e | Inr (c, n) \<Rightarrow> next_state c n)
      (map (\<lambda>((row, col), c). case count_live_neighbors g row col of
                     Inl e \<Rightarrow> Inl e | Inr n \<Rightarrow> Inr (c, n)) crow)) =
   (if crow = [] then Inr [] else Inl TypeError)"
  by (cases crow) (simp_all add: count_live_neighbors_raises case_prod_unfold)

lemma counted_row:
  "collect (map (\<lambda>p. case p of Inl e \<Rightarrow> Inl e | Inr (c, n) \<Rightarrow> next_state c n)
      (map (\<lambda>((row, col), c). case count_live_neighbors g row col of
                     Inl e \<Rightarrow> Inl e | Inr n \<Rightarrow> Inr (c, n))
           (map (\<lambda>(col_index, c). ((ri, col_index), c)) (enumerate_py r)))) =
   (if r = [] then Inr [] else Inl TypeError)"
  by (simp only: next_row map_is_Nil_conv enumerate_py_Nil)

lemma next_generation_outcome:
  "next_generation g =
     (if list_all (\<lambda>r. r = []) (grid g) then GameOfLife_init (map (\<lambda>_. []) (grid g))
      else Inl TypeError)"
proof -
  let ?step = "\<lambda>row. collect (map (\<lambda>p. case p of Inl e \<Rightarrow> Inl e
                  | Inr (c, n) \<Rightarrow> next_state c n) row)"
  have "map ?step (grid_with_live_neighbor_counts g) =
        map (\<lambda>(i, r). if r = [] then Inr [] else Inl TypeError) (enumerate_py (grid g))"
    unfolding grid_with_live_neighbor_counts_def coordinate_def map_map
    apply (rule map_cong [OF refl])
    subgoal for p
      by (cases p) (simp only: o_apply case_prod_conv counted_row)
    done
  also have "\<dots> = map (\<lambda>r. if r = [] then Inr [] else Inl TypeError) (grid g)"
    by (rule map_enumerate_py)
  finally have "collect (map ?step (grid_with_live_neighbor_counts g)) =
      (if list_all (\<lambda>r. r = []) (grid g) then Inr (map (\<lambda>_. []) (grid g)) else Inl TypeError)"
    by (simp only: collect_empty_or_raise)
  then show ?thesis
    by (simp add: next_generation_def del: collect.simps)
qed

lemma collect_replicate: "collect (replicate n (Inr x)) = Inr (replicate n x)"
  by (induction n) simp_all

lemma dead_grid_outcome:
  "dead_grid (Some h) (Some w) =
     (if h \<le> 0 \<or> w \<le> 0 then Inr (replicate (nat h) []) else Inl TypeError)"
proof (cases "w \<le> 0")
  case True
  then show ?thesis
    by (simp add: dead_grid_def py_range_def map_replicate_const collect_replicate)
next
  case False
  then have w: "[0..<nat w] = 0 # [Suc 0..<nat w]" by (simp add: upt_conv_Cons)
  show ?thesis
  proof (cases "h \<le> 0")
    case True
    then show ?thesis by (simp add: dead_grid_def py_range_def)
  next
    case h: False
    then have "[0..<nat h] = 0 # [Suc 0..<nat h]" by (simp add: upt_conv_Cons)
    with False h w show ?thesis
      by (simp add: dead_grid_def py_range_def Dead_raises)
  qed
qed

section \<open>Objects that exist before a call\<close>

lemma preservesI: "(\<And>s. n \<le> length s \<Longrightarrow> take n (snd (m s)) = take n s) \<Longrightarrow> preserves n m"
  by (simp add: preserves_def)

lemma preservesD: "preserves n m \<Longrightarrow> n \<le> length s \<Longrightarrow> take n (snd (m s)) = take n s"
  by (simp add: preserves_def)

lemma take_eq_length: "take n t = take n s \<Longrightarrow> n \<le> length s \<Longrightarrow> n \<le> length t"
proof -
  assume eq: "take n t = take n s" and n: "n \<le> length s"
  have "length (take n t) = length (take n s)" by (simp only: eq)
  with n show ?thesis by simp
qed

lemma preserves_lift: "preserves n (lift_st r)"
  by (simp add: preserves_def lift_st_def)

lemma preserves_return: "preserves n (return_st x)"
  by (simp add: return_st_def preserves_lift)

lemma preserves_raise: "preserves n (raise_st e)"
  by (simp add: raise_st_def preserves_lift)

lemma preserves_bind:
  assumes m: "preserves n m" and f: "\<And>x. preserves n (f x)"
  shows "preserves n (bind_st m f)"
proof (rule preservesI)
  fix s :: store
  assume n: "n \<le> length s"
  obtain r s' where ms: "m s = (r, s')" by (cases "m s")
  from preservesD [OF m n] ms have s': "take n s' = take n s" by simp
  then have n': "n \<le> length s'" using n by (rule take_eq_length)
  show "take n (snd (bind_st m f s)) = take n s"
  proof (cases r)
    case (Inl e)
    with ms s' show ?thesis by (simp add: bind_st_def)
  next
    case (Inr x)
    with ms have "bind_st m f s = f x s'" by (simp add: bind_st_def)
    with preservesD [OF f n', of x] s' show ?thesis by simp
  qed
qed

lemma preserves_alloc: "preserves n (alloc ob)"
  by (simp add: preserves_def alloc_def)

lemma preserves_alloc_bind:
  assumes f: "\<And>a. n \<le> a \<Longrightarrow> preserves n (f a)"
  shows "preserves n (bind_st (alloc ob) f)"
proof (rule preservesI)
  fix s :: store
  assume n: "n \<le> length s"
  have "bind_st (alloc ob) f s = f (length s) (s @ [ob])"
    by (simp add: bind_st_def alloc_def)
  moreover have "take n (snd (f (length s) (s @ [ob]))) = take n (s @ [ob])"
    using n by (intro preservesD [OF f]) simp_all
  ultimately show "take n (snd (bind_st (alloc ob) f s)) = take n s"
    using n by simp
qed

lemma preserves_mapM:
  assumes f: "\<And>x. preserves n (f x)"
  shows "preserves n (mapM_st f xs)"
  by (induction xs) (simp_all add: preserves_return preserves_bind f)

lemma preserves_list_items: "preserves n (list_items a)"
  by (simp add: preserves_def list_items_def split: option.split obj.split)

lemma preserves_get_is_alive: "preserves n (get_is_alive a)"
  by (simp add: preserves_def get_is_alive_def split: option.split obj.split)

lemma preserves_get_grid: "preserves n (get_grid a)"
  by (simp add: preserves_def get_grid_def split: option.split obj.split)

lemma preserves_get_height: "preserves n (get_height a)"
  by (simp add: preserves_def get_height_def split: option.split obj.split)

lemma preserves_get_width: "preserves n (get_width a)"
  by (simp add: preserves_def get_width_def split: option.split obj.split)

lemma preserves_set_is_alive: "n \<le> a \<Longrightarrow> preserves n (set_is_alive a v)"
  by (simp add: preserves_def set_is_alive_def split: option.split obj.split)

lemma preserves_set_grid: "n \<le> a \<Longrightarrow> preserves n (set_grid a g)"
  by (simp add: preserves_def set_grid_def split: option.split obj.split)

lemma preserves_set_height: "n \<le> a \<Longrightarrow> preserves n (set_height a h)"
  by (simp add: preserves_def set_height_def split: option.split obj.split)

lemma preserves_set_width: "n \<le> a \<Longrightarrow> preserves n (set_width a w)"
  by (simp add: preserves_def set_width_def split: option.split obj.split)

lemma preserves_Cell_new: "preserves n (Cell_new k args)"
  unfolding Cell_new_def
  by (rule preserves_alloc_bind)
     (simp add: preserves_bind preserves_set_is_alive preserves_return preserves_raise
        split: list.split)

lemma preserves_GameOfLife_new: "preserves n (GameOfLife_new g)"
  unfolding GameOfLife_new_def
  by (rule preserves_alloc_bind)
     (intro preserves_bind preserves_set_grid preserves_set_height preserves_set_width
        preserves_list_items preserves_lift preserves_return)

lemma preserves_get_st: "preserves n (get_st self row col dflt)"
  unfolding get_st_def
  by (intro preserves_bind preserves_get_grid preserves_get_height preserves_get_width
        preserves_list_items preserves_lift preserves_return)
     (simp_all add: preserves_bind preserves_get_grid preserves_get_height preserves_get_width
        preserves_list_items preserves_lift preserves_return)

lemma preserves_is_coord_alive_st: "preserves n (is_coord_alive_st self coord)"
  unfolding is_coord_alive_st_def
  by (intro preserves_bind preserves_Cell_new preserves_get_st)
     (simp add: preserves_bind preserves_get_is_alive preserves_return preserves_raise
        split: option.split)

lemma preserves_count_live_neighbors_st: "preserves n (count_live_neighbors_st self row col)"
  unfolding count_live_neighbors_st_def
  by (intro preserves_bind preserves_mapM preserves_is_coord_alive_st preserves_return)

lemma preserves_next_state_st: "preserves n (next_state_st c k)"
proof (rule preservesI)
  fix s :: store
  assume "n \<le> length s"
  then show "take n (snd (next_state_st c k s)) = take n s"
    by (simp add: next_state_st_def preservesD [OF preserves_Cell_new]
          preservesD [OF preserves_raise]
          split: option.split obj.split cell_class.split)
qed

lemma preserves_cell_step: "preserves n (cell_step self i x)"
  by (cases x)
     (simp add: cell_step_def preserves_bind preserves_count_live_neighbors_st
        preserves_next_state_st)

lemma preserves_next_row_st: "preserves n (next_row_st self p)"
  unfolding next_row_st_def
  by (cases p)
     (simp add: preserves_bind preserves_list_items preserves_mapM preserves_alloc
        preserves_cell_step)

lemma preserves_next_generation_st: "preserves n (next_generation_st self)"
  unfolding next_generation_st_def
  by (intro preserves_bind preserves_get_grid preserves_list_items preserves_mapM
        preserves_next_row_st preserves_alloc preserves_GameOfLife_new)

text \<open>
  Every object that exists before a call of \<^verbatim>\<open>next_generation\<close> is at its address with
  the same contents after the call, whether the call returns or raises.
\<close>

lemma next_generation_st_frame: "take (length s) (snd (next_generation_st self s)) = s"
  using preservesD [OF preserves_next_generation_st, of "length s" s self] by simp

section \<open>The store and the values\<close>

text \<open>
  The transition on the store computes what the transition on values computes: when the
  game at \<open>self\<close> stands for the value \<open>G\<close>, the call on the store raises the exception
  that \<open>next_generation G\<close> raises, or returns a game that stands for the value that
  \<open>next_generation G\<close> returns (lemma \<open>next_generation_st_simulation\<close>). Reading a game
  gives the same value in every store that extends the one it is read in.
\<close>

lemma fst_bind_st_Inl: "fst (m s) = Inl e \<Longrightarrow> fst (bind_st m f s) = Inl e"
  by (cases "m s") (simp add: bind_st_def)

lemma bind_st_Inr_eq: "m s = (Inr x, s1) \<Longrightarrow> bind_st m f s = f x s1"
  by (simp add: bind_st_def)

lemma Cell_new_raises: "fst (Cell_new k [] s) = Inl TypeError"
  by (simp add: Cell_new_def bind_st_def alloc_def raise_st_def lift_st_def)

lemma is_coord_alive_st_raises: "fst (is_coord_alive_st self coord s) = Inl TypeError"
  unfolding is_coord_alive_st_def by (rule fst_bind_st_Inl) (rule Cell_new_raises)

lemma count_live_neighbors_st_raises:
  "fst (count_live_neighbors_st self i j s) = Inl TypeError"
  unfolding count_live_neighbors_st_def neighbor_coords_eq mapM_st.simps
  by (intro fst_bind_st_Inl is_coord_alive_st_raises)

lemma cell_step_raises: "fst (cell_step self i x s) = Inl TypeError"
  by (cases x) (simp add: cell_step_def fst_bind_st_Inl count_live_neighbors_st_raises)

lemma enumerate_py_Cons:
  "enumerate_py (x # xs) = (0, x) # zip (map int [Suc 0..<Suc (length xs)]) xs"
  by (simp add: enumerate_py_def upt_conv_Cons del: upt_Suc)

lemma next_row_st_empty:
  "obj_at s r = Some (PyList []) \<Longrightarrow> next_row_st self (i, r) s = (Inr (length s), s @ [PyList []])"
  by (simp add: next_row_st_def bind_st_def list_items_def enumerate_py_def return_st_def
        lift_st_def alloc_def)

lemma next_row_st_raises:
  assumes "obj_at s r = Some (PyList (c # cs))"
  shows "fst (next_row_st self (i, r) s) = Inl TypeError"
proof -
  define ps where "ps = zip (map int [Suc 0..<Suc (length cs)]) cs"
  have ps: "enumerate_py (c # cs) = (0, c) # ps"
    by (simp only: enumerate_py_Cons ps_def)
  from assms have "list_items r s = (Inr (c # cs), s)" by (simp add: list_items_def)
  then have "next_row_st self (i, r) s =
      bind_st (mapM_st (cell_step self i) ((0, c) # ps)) (\<lambda>next_cells. alloc (PyList next_cells)) s"
    by (simp add: next_row_st_def bind_st_Inr_eq ps)
  then show ?thesis
    by (simp add: fst_bind_st_Inl cell_step_raises)
qed

lemma obj_at_append: "obj_at s a = Some ob \<Longrightarrow> obj_at (s @ t) a = Some ob"
  by (auto simp add: obj_at_def nth_append split: if_splits)

lemma next_rows_outcome:
  assumes "list_all (\<lambda>p. \<exists>cs. obj_at s (snd p) = Some (PyList cs)) ps"
  shows "if list_all (\<lambda>p. obj_at s (snd p) = Some (PyList [])) ps
         then mapM_st (next_row_st self) ps s =
                (Inr [length s..<length s + length ps], s @ replicate (length ps) (PyList []))
         else fst (mapM_st (next_row_st self) ps s) = Inl TypeError"
  using assms
proof (induction ps arbitrary: s)
  case Nil
  then show ?case by (simp add: return_st_def lift_st_def)
next
  case (Cons p ps)
  obtain i r where p: "p = (i, r)" by (cases p)
  from Cons.prems p obtain cs where r: "obj_at s r = Some (PyList cs)" by auto
  show ?case
  proof (cases cs)
    case (Cons c cs')
    with r have "fst (next_row_st self (i, r) s) = Inl TypeError"
      by (simp add: next_row_st_raises)
    with r Cons p show ?thesis by (simp add: fst_bind_st_Inl)
  next
    case Nil
    let ?s1 = "s @ [PyList []]"
    from r Nil have row: "next_row_st self (i, r) s = (Inr (length s), ?s1)"
      by (simp add: next_row_st_empty)
    have lists: "list_all (\<lambda>p. \<exists>cs. obj_at ?s1 (snd p) = Some (PyList cs)) ps"
      using Cons.prems by (auto simp add: list_all_iff dest: obj_at_append)
    have same: "list_all (\<lambda>p. obj_at ?s1 (snd p) = Some (PyList [])) ps \<longleftrightarrow>
                list_all (\<lambda>p. obj_at s (snd p) = Some (PyList [])) ps"
    proof -
      have "obj_at ?s1 (snd q) = obj_at s (snd q)" if "q \<in> set ps" for q
      proof -
        from Cons.prems that obtain ds where "obj_at s (snd q) = Some (PyList ds)"
          by (auto simp add: list_all_iff)
        then show ?thesis by (simp add: obj_at_append)
      qed
      then show ?thesis by (simp add: list_all_iff)
    qed
    have step: "mapM_st (next_row_st self) (p # ps) s =
        bind_st (mapM_st (next_row_st self) ps) (\<lambda>ys. return_st (length s # ys)) ?s1"
      by (simp add: p bind_st_def row)
    show ?thesis
    proof (cases "list_all (\<lambda>p. obj_at s (snd p) = Some (PyList [])) ps")
      case True
      define xs where "xs = [length ?s1..<length ?s1 + length ps]"
      define t where "t = ?s1 @ replicate (length ps) (PyList [])"
      from Cons.IH [OF lists] same True
      have rest: "mapM_st (next_row_st self) ps ?s1 = (Inr xs, t)"
        unfolding xs_def t_def by simp
      have "mapM_st (next_row_st self) (p # ps) s = (Inr (length s # xs), t)"
        unfolding step by (simp add: bind_st_def return_st_def lift_st_def rest)
      moreover have "length s # xs = [length s..<length s + length (p # ps)]"
        unfolding xs_def by (simp add: upt_conv_Cons del: upt_Suc)
      moreover have "t = s @ replicate (length (p # ps)) (PyList [])"
        unfolding t_def by simp
      ultimately show ?thesis using True r Nil p by (simp del: upt_Suc)
    next
      case False
      with Cons.IH [OF lists] same have "fst (mapM_st (next_row_st self) ps ?s1) = Inl TypeError"
        by simp
      then have "fst (mapM_st (next_row_st self) (p # ps) s) = Inl TypeError"
        unfolding step by (rule fst_bind_st_Inl)
      with False show ?thesis by simp
    qed
  qed
qed

lemma obj_at_new: "obj_at (s @ [ob]) (length s) = Some ob"
  by (simp add: obj_at_def)

lemma set_grid_new:
  "set_grid (length s) g (s @ [GameObj a h w]) = (Inr (), s @ [GameObj (Some g) h w])"
  by (simp add: set_grid_def obj_at_new)

lemma set_height_new:
  "set_height (length s) h (s @ [GameObj g a w]) = (Inr (), s @ [GameObj g (Some h) w])"
  by (simp add: set_height_def obj_at_new)

lemma set_width_new:
  "set_width (length s) w (s @ [GameObj g h a]) = (Inr (), s @ [GameObj g h (Some w)])"
  by (simp add: set_width_def obj_at_new)

lemma list_items_append:
  "obj_at s a = Some (PyList xs) \<Longrightarrow> list_items a (s @ t) = (Inr xs, s @ t)"
  by (simp add: list_items_def obj_at_append)

lemma GameOfLife_new_rows:
  assumes l: "obj_at s l = Some (PyList (r # rs))" and r: "obj_at s r = Some (PyList cs)"
  shows "GameOfLife_new l s =
           (Inr (length s),
            s @ [GameObj (Some l) (Some (int (length (r # rs)))) (Some (int (length cs)))])"
  by (simp add: GameOfLife_new_def bind_st_def alloc_def set_grid_new set_height_new
        set_width_new list_items_append [OF l] list_items_append [OF r] py_index_def
        return_st_def lift_st_def)

lemma GameOfLife_new_no_rows:
  assumes l: "obj_at s l = Some (PyList [])"
  shows "fst (GameOfLife_new l s) = Inl IndexError"
  by (simp add: GameOfLife_new_def bind_st_def alloc_def set_grid_new set_height_new
        list_items_append [OF l] py_index_def lift_st_def)

lemma snd_enumerate_py: "map snd (enumerate_py xs) = xs"
  by (simp add: enumerate_py_def)

lemma list_all_enumerate_py:
  "list_all (\<lambda>p. P (snd p)) (enumerate_py xs) \<longleftrightarrow> list_all P xs"
proof -
  have "list_all (\<lambda>p. P (snd p)) (enumerate_py xs) \<longleftrightarrow> list_all P (map snd (enumerate_py xs))"
    by (simp add: list_all_iff)
  then show ?thesis by (simp only: snd_enumerate_py)
qed

lemma length_enumerate_py: "length (enumerate_py xs) = length xs"
  by (simp add: enumerate_py_def)

lemma next_generation_st_rows:
  assumes self: "obj_at s self = Some (GameObj (Some l) h w)"
    and l: "obj_at s l = Some (PyList rows)"
  shows "next_generation_st self s =
           bind_st (mapM_st (next_row_st self) (enumerate_py rows)) (\<lambda>next_rows.
           bind_st (alloc (PyList next_rows)) (\<lambda>next_grid.
           GameOfLife_new next_grid)) s"
  by (simp add: next_generation_st_def bind_st_def get_grid_def list_items_def self l)

lemma next_generation_st_raises:
  assumes self: "obj_at s self = Some (GameObj (Some l) h w)"
    and l: "obj_at s l = Some (PyList rows)"
    and rows: "list_all (\<lambda>r. \<exists>cs. obj_at s r = Some (PyList cs)) rows"
    and cells: "\<not> list_all (\<lambda>r. obj_at s r = Some (PyList [])) rows"
  shows "fst (next_generation_st self s) = Inl TypeError"
proof -
  note lists = list_all_enumerate_py [of "\<lambda>r. \<exists>cs. obj_at s r = Some (PyList cs)" rows]
  note empties = list_all_enumerate_py [of "\<lambda>r. obj_at s r = Some (PyList [])" rows]
  from rows have "list_all (\<lambda>p. \<exists>cs. obj_at s (snd p) = Some (PyList cs)) (enumerate_py rows)"
    by (simp only: lists)
  from next_rows_outcome [OF this, of self] cells
  have "fst (mapM_st (next_row_st self) (enumerate_py rows) s) = Inl TypeError"
    by (simp only: empties if_False)
  then show ?thesis
    unfolding next_generation_st_rows [OF self l] by (rule fst_bind_st_Inl)
qed

lemma next_generation_st_empty_rows:
  assumes self: "obj_at s self = Some (GameObj (Some l) h w)"
    and l: "obj_at s l = Some (PyList rows)"
    and cells: "list_all (\<lambda>r. obj_at s r = Some (PyList [])) rows"
  shows "if rows = [] then fst (next_generation_st self s) = Inl IndexError
         else next_generation_st self s =
           (Inr (Suc (length s + length rows)),
            s @ replicate (length rows) (PyList []) @
              [PyList [length s..<length s + length rows],
               GameObj (Some (length s + length rows)) (Some (int (length rows))) (Some 0)])"
proof -
  define xs where "xs = [length s..<length s + length rows]"
  define t where "t = s @ replicate (length rows) (PyList [])"
  note lists = list_all_enumerate_py [of "\<lambda>r. \<exists>cs. obj_at s r = Some (PyList cs)" rows]
  note empties = list_all_enumerate_py [of "\<lambda>r. obj_at s r = Some (PyList [])" rows]
  from cells have "list_all (\<lambda>r. \<exists>cs. obj_at s r = Some (PyList cs)) rows"
    by (simp add: list_all_iff)
  then have "list_all (\<lambda>p. \<exists>cs. obj_at s (snd p) = Some (PyList cs)) (enumerate_py rows)"
    by (simp only: lists)
  from next_rows_outcome [OF this, of self] cells
  have loop: "mapM_st (next_row_st self) (enumerate_py rows) s = (Inr xs, t)"
    unfolding xs_def t_def by (simp only: empties length_enumerate_py if_True)
  have run: "next_generation_st self s = GameOfLife_new (length t) (t @ [PyList xs])"
    unfolding next_generation_st_rows [OF self l]
    by (simp add: bind_st_def loop alloc_def)
  have grid: "obj_at (t @ [PyList xs]) (length t) = Some (PyList xs)"
    by (rule obj_at_new)
  show ?thesis
  proof (cases rows)
    case Nil
    then have "xs = []" by (simp add: xs_def)
    with grid have "fst (GameOfLife_new (length t) (t @ [PyList xs])) = Inl IndexError"
      by (simp add: GameOfLife_new_no_rows)
    with Nil run show ?thesis by simp
  next
    case (Cons r rs)
    then have xs: "xs = length s # [Suc (length s)..<length s + length rows]"
      by (simp add: xs_def upt_conv_Cons del: upt_Suc)
    from Cons have "obj_at t (length s) = Some (PyList [])"
      by (simp add: t_def obj_at_def nth_append)
    then have row0: "obj_at (t @ [PyList xs]) (length s) = Some (PyList [])"
      by (rule obj_at_append)
    from grid xs have
      "obj_at (t @ [PyList xs]) (length t) =
         Some (PyList (length s # [Suc (length s)..<length s + length rows]))"
      by simp
    from GameOfLife_new_rows [OF this row0]
    have "GameOfLife_new (length t) (t @ [PyList xs]) =
        (Inr (Suc (length t)),
         (t @ [PyList xs]) @ [GameObj (Some (length t)) (Some (int (length xs))) (Some 0)])"
      by (simp add: xs del: upt_Suc)
    moreover have "length xs = length rows" by (simp add: xs_def)
    moreover have "length t = length s + length rows" by (simp add: t_def)
    ultimately show ?thesis using Cons run by (simp add: t_def xs_def del: upt_Suc)
  qed
qed

lemma those_map_Some:
  "those (map f xs) = Some ys \<Longrightarrow> list_all2 (\<lambda>x y. f x = Some y) xs ys"
  by (induction xs arbitrary: ys) (auto split: option.splits)

lemma those_map_const:
  "(\<And>x. x \<in> set xs \<Longrightarrow> f x = Some c) \<Longrightarrow> those (map f xs) = Some (replicate (length xs) c)"
  by (induction xs) simp_all

lemma read_row_Some:
  assumes "read_row s r = Some row"
  shows "\<exists>cs. obj_at s r = Some (PyList cs) \<and> length cs = length row"
proof -
  from assms obtain cs where r: "obj_at s r = Some (PyList cs)"
    and cs: "those (map (read_cell s) cs) = Some row"
    by (auto simp add: read_row_def split: option.splits obj.splits)
  from those_map_Some [OF cs] have "length cs = length row"
    by (rule list_all2_lengthD)
  with r show ?thesis by simp
qed

lemma read_row_empty:
  assumes "read_row s r = Some row"
  shows "obj_at s r = Some (PyList []) \<longleftrightarrow> row = []"
proof -
  from read_row_Some [OF assms] obtain cs where
    "obj_at s r = Some (PyList cs)" and "length cs = length row" by blast
  then show ?thesis by auto
qed

lemma read_rows:
  assumes "those (map (read_row s) rows) = Some gr"
  shows "length gr = length rows"
    and "list_all (\<lambda>r. \<exists>cs. obj_at s r = Some (PyList cs)) rows"
    and "list_all (\<lambda>r. obj_at s r = Some (PyList [])) rows \<longleftrightarrow> list_all (\<lambda>row. row = []) gr"
proof -
  from those_map_Some [OF assms]
  have rel: "list_all2 (\<lambda>r row. read_row s r = Some row) rows gr" .
  then show "length gr = length rows" by (simp add: list_all2_lengthD)
  from rel show "list_all (\<lambda>r. \<exists>cs. obj_at s r = Some (PyList cs)) rows"
    by (induction rule: list_all2_induct) (auto dest: read_row_Some)
  from rel show "list_all (\<lambda>r. obj_at s r = Some (PyList [])) rows \<longleftrightarrow>
                 list_all (\<lambda>row. row = []) gr"
    by (induction rule: list_all2_induct) (simp_all add: read_row_empty)
qed

lemma read_game_new:
  assumes k: "0 < k"
  shows "read_game
           (s @ replicate k (PyList []) @
              [PyList [length s..<length s + k],
               GameObj (Some (length s + k)) (Some (int k)) (Some 0)])
           (Suc (length s + k)) =
         Some \<lparr>grid = replicate k [], height = int k, width = 0\<rparr>"
proof -
  let ?s' = "s @ replicate k (PyList []) @
              [PyList [length s..<length s + k],
               GameObj (Some (length s + k)) (Some (int k)) (Some 0)]"
  have game: "obj_at ?s' (Suc (length s + k)) =
      Some (GameObj (Some (length s + k)) (Some (int k)) (Some 0))"
    by (simp add: obj_at_def nth_append)
  have rows: "obj_at ?s' (length s + k) = Some (PyList [length s..<length s + k])"
    by (simp add: obj_at_def nth_append)
  have "read_row ?s' r = Some []" if "r \<in> set [length s..<length s + k]" for r
  proof -
    from that have "r - length s < k" and "r < length s + (k + 2)" and "\<not> r < length s"
      by auto
    then show ?thesis by (simp add: read_row_def obj_at_def nth_append)
  qed
  then have "those (map (read_row ?s') [length s..<length s + k]) =
      Some (replicate (length [length s..<length s + k]) [])"
    by (rule those_map_const)
  then show ?thesis
    by (simp add: read_game_def game rows)
qed

lemma next_generation_st_simulation:
  assumes G: "read_game s self = Some G"
  shows "(case next_generation_st self s of (r, s') \<Rightarrow> map_sum id (read_game s') r) =
         map_sum id Some (next_generation G)"
proof -
  from G obtain l h w rows gr where
    self: "obj_at s self = Some (GameObj (Some l) (Some h) (Some w))"
    and l: "obj_at s l = Some (PyList rows)"
    and gr: "those (map (read_row s) rows) = Some gr"
    and grid: "grid G = gr"
    by (auto simp add: read_game_def split: option.splits obj.splits)
  note rd = read_rows [OF gr]
  show ?thesis
  proof (cases "list_all (\<lambda>row. row = []) gr")
    case False
    with rd(3) have "\<not> list_all (\<lambda>r. obj_at s r = Some (PyList [])) rows" by simp
    from next_generation_st_raises [OF self l rd(2) this]
    have "fst (next_generation_st self s) = Inl TypeError" .
    moreover from False grid have "next_generation G = Inl TypeError"
      by (simp add: next_generation_outcome)
    ultimately show ?thesis by (simp add: case_prod_unfold)
  next
    case True
    with rd(3) have empties: "list_all (\<lambda>r. obj_at s r = Some (PyList [])) rows" by simp
    note run = next_generation_st_empty_rows [OF self l empties]
    from True grid have val: "next_generation G = GameOfLife_init (replicate (length rows) [])"
      by (simp add: next_generation_outcome map_replicate_const rd(1))
    show ?thesis
    proof (cases "rows = []")
      case True
      with run have "fst (next_generation_st self s) = Inl IndexError" by simp
      moreover from True val have "next_generation G = Inl IndexError"
        by (simp add: GameOfLife_init_def py_index_def)
      ultimately show ?thesis by (simp add: case_prod_unfold)
    next
      case False
      then have k: "0 < length rows" by simp
      then obtain k' where k': "length rows = Suc k'" by (cases "length rows") simp_all
      from val have "next_generation G =
          Inr \<lparr>grid = replicate (length rows) [], height = int (length rows), width = 0\<rparr>"
        by (simp add: GameOfLife_init_def py_index_def k')
      moreover from False run read_game_new [OF k, of s]
      have "(case next_generation_st self s of (r, s') \<Rightarrow> map_sum id (read_game s') r) =
          Inr (Some \<lparr>grid = replicate (length rows) [], height = int (length rows), width = 0\<rparr>)"
        by simp
      ultimately show ?thesis by simp
    qed
  qed
qed

lemma those_map_mono:
  assumes "those (map f xs) = Some ys" and "\<And>x y. f x = Some y \<Longrightarrow> g x = Some y"
  shows "those (map g xs) = Some ys"
  using assms(1)
proof (induction xs arbitrary: ys)
  case Nil
  then show ?case by simp
next
  case (Cons x xs)
  from Cons.prems obtain y ys' where x: "f x = Some y"
    and xs: "those (map f xs) = Some ys'" and ys: "ys = y # ys'"
    by (auto split: option.splits)
  from assms(2) [OF x] Cons.IH [OF xs] ys show ?case by simp
qed

lemma read_cell_append: "read_cell s a = Some c \<Longrightarrow> read_cell (s @ t) a = Some c"
  by (auto simp add: read_cell_def obj_at_append split: option.splits obj.splits)

lemma read_row_append:
  assumes "read_row s r = Some row"
  shows "read_row (s @ t) r = Some row"
proof -
  from assms obtain cs where r: "obj_at s r = Some (PyList cs)"
    and cs: "those (map (read_cell s) cs) = Some row"
    by (auto simp add: read_row_def split: option.splits obj.splits)
  from those_map_mono [OF cs read_cell_append]
  have "those (map (read_cell (s @ t)) cs) = Some row" .
  with obj_at_append [OF r] show ?thesis by (simp add: read_row_def)
qed

lemma read_game_append:
  assumes "read_game s a = Some G"
  shows "read_game (s @ t) a = Some G"
proof -
  from assms obtain l h w rows gr where
    a: "obj_at s a = Some (GameObj (Some l) (Some h) (Some w))"
    and l: "obj_at s l = Some (PyList rows)"
    and gr: "those (map (read_row s) rows) = Some gr"
    and G: "G = \<lparr>grid = gr, height = h, width = w\<rparr>"
    by (auto simp add: read_game_def split: option.splits obj.splits)
  from those_map_mono [OF gr read_row_append]
  have "those (map (read_row (s @ t)) rows) = Some gr" .
  with obj_at_append [OF a] obj_at_append [OF l] G show ?thesis
    by (simp add: read_game_def)
qed

lemma read_game_extend:
  assumes "take (length s) s' = s" and "read_game s a = Some G"
  shows "read_game s' a = Some G"
proof -
  from assms(1) have "s' = s @ drop (length s) s'"
    by (metis append_take_drop_id)
  with read_game_append [OF assms(2), of "drop (length s) s'"] show ?thesis by simp
qed

text \<open>
  The game that \<^verbatim>\<open>next_generation\<close> is called on stands for the same value after the
  call as before it, whether the call returns or raises.
\<close>

lemma next_generation_st_keeps_game:
  "read_game s self = Some G \<Longrightarrow> read_game (snd (next_generation_st self s)) self = Some G"
  by (rule read_game_extend [OF next_generation_st_frame])

section \<open>The claims\<close>

text \<open>
  C1: in \<^verbatim>\<open>next_generation(G)\<close> every cell is given by the rule table applied to the cell
  of \<open>G\<close> and its count of live neighbours. The code does not get that far: on the 2 by 2
  grid of live cells, where the rule keeps every cell alive, \<^verbatim>\<open>GameOfLife(grid=...)\<close>
  succeeds and \<^verbatim>\<open>next_generation\<close> raises \<^verbatim>\<open>TypeError\<close>.
\<close>

theorem next_generation_block_raises:
  "GameOfLife_init [[live_cell, live_cell], [live_cell, live_cell]] =
     Inr \<lparr>grid = [[live_cell, live_cell], [live_cell, live_cell]],
          height = 2, width = 2\<rparr> \<and>
   next_generation
     \<lparr>grid = [[live_cell, live_cell], [live_cell, live_cell]], height = 2, width = 2\<rparr> =
     Inl TypeError"
  by (simp add: next_generation_outcome GameOfLife_init_def py_index_def)

text \<open>
  C2: the count of live neighbours is the number of live cells among the eight
  surrounding coordinates, with coordinates outside the grid counted as dead, and lies
  between 0 and 8. At the corner (0, 0) of a 2 by 2 grid with three live neighbours the
  code raises \<^verbatim>\<open>TypeError\<close> instead of returning 3.
\<close>

theorem count_live_neighbors_corner_raises:
  "count_live_neighbors
     \<lparr>grid = [[dead_cell, live_cell], [live_cell, live_cell]], height = 2, width = 2\<rparr> 0 0 =
     Inl TypeError"
  by (rule count_live_neighbors_raises)

text \<open>
  C3: on a non-empty rectangular grid \<^verbatim>\<open>next_generation\<close> succeeds and returns a grid of
  the same height and width. On the 1 by 2 grid of dead cells it raises \<^verbatim>\<open>TypeError\<close>.
\<close>

theorem next_generation_row_raises:
  "next_generation \<lparr>grid = [[dead_cell, dead_cell]], height = 1, width = 2\<rparr> =
     Inl TypeError"
  by (simp add: next_generation_outcome)

text \<open>
  C4: rendering the parsed grid of a well-formed seed text gives the text back. Parsing
  the one-row seed of a dead and a live symbol raises \<^verbatim>\<open>TypeError\<close>, so there is no grid
  to render.
\<close>

theorem from_str_roundtrip_raises:
  "from_str (Dead_string_form @ Live_string_form) = Inl TypeError"
  by (simp add: from_str_outcome non_empty_lines_def splitlines_def is_linebreak_def
        Dead_string_form_def Live_string_form_def)





text \<open>
  C7: \<^verbatim>\<open>dead_grid\<close> fails when the height or the width is not positive. With height 0 and
  width 3 it returns the empty list of rows.
\<close>

theorem dead_grid_counterexample: "dead_grid (Some 0) (Some 3) = Inr []"
  by (simp add: dead_grid_outcome)

text \<open>
  C7, amended: \<^verbatim>\<open>dead_grid\<close> checks no dimension. When the height or the width is not
  positive it returns as many rows as the height asks for, none for a height that is not
  positive, and each row has no cell.
\<close>

theorem dead_grid_nonpositive:
  "h \<le> 0 \<or> w \<le> 0 \<Longrightarrow> dead_grid (Some h) (Some w) = Inr (replicate (nat h) [])"
  by (simp add: dead_grid_outcome)

theorem dead_grid_nonpositive_witness:
  "((2::int) \<le> 0 \<or> (0::int) \<le> 0) \<and> dead_grid (Some 2) (Some 0) = Inr [[], []]"
  using dead_grid_nonpositive [of 2 0] by (simp add: numeral_2_eq_2)

text \<open>
  C8: four generations move the glider of the 6 by 7 seed one row down and one column to
  the right. \<^verbatim>\<open>glider_example\<close> parses the seed text first, and parsing it raises
  \<^verbatim>\<open>TypeError\<close>: no generation is computed. On the seed grid built cell by cell the
  first call of \<^verbatim>\<open>next_generation\<close> raises \<^verbatim>\<open>TypeError\<close>.
\<close>

theorem from_str_glider_raises:
  "from_str glider_string = Inl TypeError \<and>
   GameOfLife_init glider_seed = Inr \<lparr>grid = glider_seed, height = 6, width = 7\<rparr> \<and>
   next_generation \<lparr>grid = glider_seed, height = 6, width = 7\<rparr> = Inl TypeError"
proof -
  have "from_str glider_string = Inl TypeError"
    by (simp add: from_str_outcome non_empty_lines_def splitlines_def is_linebreak_def
          glider_string_def)
  moreover have
    "GameOfLife_init glider_seed = Inr \<lparr>grid = glider_seed, height = 6, width = 7\<rparr>"
    by (simp add: GameOfLife_init_def py_index_def) (simp add: glider_seed_def)
  moreover have
    "next_generation \<lparr>grid = glider_seed, height = 6, width = 7\<rparr> = Inl TypeError"
    by (simp add: next_generation_outcome) (simp add: glider_seed_def)
  ultimately show ?thesis by simp
qed

text \<open>
  C9: a text with at least one non-empty line, all of the same length, is parsed whatever
  its characters are: a live symbol gives a live cell and any other character a dead
  cell. The one-row text of the letter x and a live symbol raises \<^verbatim>\<open>TypeError\<close>.
\<close>

theorem from_str_any_character_raises:
  "non_empty_lines ([120] @ Live_string_form) = [[120] @ Live_string_form] \<and>
   from_str ([120] @ Live_string_form) = Inl TypeError"
  by (simp add: from_str_outcome non_empty_lines_def splitlines_def is_linebreak_def
        Live_string_form_def)

text \<open>
  C10: the grid of dead cells of a positive height and width is a fixed point of
  \<^verbatim>\<open>next_generation\<close>. For height 1 and width 1 \<^verbatim>\<open>dead_grid\<close> raises \<^verbatim>\<open>TypeError\<close>, and so
  does \<^verbatim>\<open>next_generation\<close> on the 1 by 1 grid of a dead cell.
\<close>

theorem dead_grid_fixed_point_raises:
  "dead_grid (Some 1) (Some 1) = Inl TypeError \<and>
   next_generation \<lparr>grid = [[dead_cell]], height = 1, width = 1\<rparr> = Inl TypeError"
  by (simp add: dead_grid_outcome next_generation_outcome)

end
